theory Spec2Isabelle
  imports Main
begin

section \<open>Strings and numbers\<close>

text \<open>
  A TypeScript string is modelled as a \<^typ>\<open>string\<close>. The few characters of the
  source's literals that are not ASCII are written as their UTF-8 bytes; the markers
  that the code searches for are ASCII, and an ASCII byte never occurs inside the
  encoding of another character, so containment of a marker is the same in both views.
\<close>

text \<open>\<^verbatim>\<open>String.prototype.startsWith\<close> (at position 0).\<close>

fun startsWith :: "string \<Rightarrow> string \<Rightarrow> bool" where
  "startsWith s [] = True"
| "startsWith [] (c # m) = False"
| "startsWith (x # s) (c # m) = (x = c \<and> startsWith s m)"

text \<open>\<^verbatim>\<open>String.prototype.includes\<close>: the search string occurs at some position.\<close>

fun includes_str :: "string \<Rightarrow> string \<Rightarrow> bool" where
  "includes_str [] m = (m = [])"
| "includes_str (x # s) m = (startsWith (x # s) m \<or> includes_str s m)"

text \<open>
  \<^verbatim>\<open>Number.prototype.toString\<close> on an integer: the decimal digits. (JavaScript
  switches to exponent notation for very large numbers; a value of \<^verbatim>\<open>Date.now()\<close>
  is far below them.)
\<close>

fun digits :: "nat \<Rightarrow> string" where
  "digits n =
     (if n < 10 then [''0123456789'' ! n]
      else digits (n div 10) @ [''0123456789'' ! (n mod 10)])"

declare digits.simps [simp del]

definition Number_toString :: "int \<Rightarrow> string" where
  "Number_toString n = (if n < 0 then CHR ''-'' # digits (nat (- n)) else digits (nat n))"

text \<open>The character U+2AFB, which the KickLang prompts put in front of their keywords.\<close>

definition kl :: string where
  "kl = [CHR 0xE2, CHR 0xAB, CHR 0xBB]"

section \<open>The data model (\<^verbatim>\<open>types.ts\<close>)\<close>

datatype LearningStyle = Socratic | Direct | Hybrid

text \<open>The string value of each member of the enum.\<close>

fun LearningStyle_value :: "LearningStyle \<Rightarrow> string" where
  "LearningStyle_value Socratic = ''Socratic''"
| "LearningStyle_value Direct = ''Direct''"
| "LearningStyle_value Hybrid = ''Hybrid''"

datatype NodeStatus = pending | active | completed

text \<open>
  A value of type \<^verbatim>\<open>number\<close> that comes with the data (a double). The model never
  computes with one, so the type is left open.
\<close>

typedecl number

record GraphNode =
  id_node :: string
  label :: string
  status :: NodeStatus
  group :: "number option"

record GraphLink =
  source :: string
  target :: string

record LearningGraphData =
  nodes :: "GraphNode list"
  links :: "GraphLink list"

datatype Role = user | model | system

record Message =
  id_msg :: string
  role :: Role
  authorName :: "string option"
  text_msg :: string
  timestamp :: int

record KickLangState =
  objective :: string
  learningStyle :: LearningStyle
  currentNodeId :: string
  difficulty :: string

definition INITIAL_GRAPH :: LearningGraphData where
  "INITIAL_GRAPH = \<lparr>nodes = [], links = []\<rparr>"

section \<open>Values at run time\<close>

text \<open>
  What \<^verbatim>\<open>JSON.parse\<close> can return: any JSON value. An object is the list of its own
  properties, each key once. A value that may also be \<^verbatim>\<open>undefined\<close> is a
  \<open>json option\<close>, with \<open>None\<close> for \<^verbatim>\<open>undefined\<close>.
\<close>

datatype json =
    JNull
  | JBool bool
  | JNum number
  | JStr string
  | JArr "json list"
  | JObj "(string \<times> json) list"

type_synonym jsval = "json option"

text \<open>A value of a declared type, as the JSON value it is at run time.\<close>

fun NodeStatus_value :: "NodeStatus \<Rightarrow> string" where
  "NodeStatus_value pending = ''pending''"
| "NodeStatus_value active = ''active''"
| "NodeStatus_value completed = ''completed''"

definition node_json :: "GraphNode \<Rightarrow> json" where
  "node_json n =
     JObj ([(''id'', JStr (id_node n)), (''label'', JStr (label n)),
            (''status'', JStr (NodeStatus_value (status n)))] @
           (case group n of None \<Rightarrow> [] | Some k \<Rightarrow> [(''group'', JNum k)]))"

definition link_json :: "GraphLink \<Rightarrow> json" where
  "link_json l = JObj [(''source'', JStr (source l)), (''target'', JStr (target l))]"

definition graph_json :: "LearningGraphData \<Rightarrow> json" where
  "graph_json g =
     JObj [(''nodes'', JArr (map node_json (nodes g))), (''links'', JArr (map link_json (links g)))]"





section \<open>The model service (\<^verbatim>\<open>services/geminiService.ts\<close>)\<close>

text \<open>
  What a call can throw. The hosted model and \<^verbatim>\<open>JSON.parse\<close> are outside the
  repository: the functions below take them as parameters, each returning either the
  exception it throws (\<open>Inl\<close>) or its value (\<open>Inr\<close>).
\<close>

datatype error = ApiError string | SyntaxError string | Error string | TypeError string

text \<open>
  The response of the model. Its \<^verbatim>\<open>text\<close> may be absent, which is why
  \<^verbatim>\<open>generateLearningGraph\<close> tests it before use.
\<close>

record GenerateContentResponse =
  text_resp :: "string option"

record Part =
  text_part :: string

record HistoryEntry =
  role_h :: string
  parts :: "Part list"

record ChatContext =
  objective_ctx :: string
  style :: LearningStyle
  currentNode :: string
  graph :: LearningGraphData

text \<open>
  \<^verbatim>\<open>ai.models.generateContent\<close>, as a function of the \<^verbatim>\<open>contents\<close> it is sent
  (the model name and the response schema are constants).
\<close>

type_synonym generateContent = "string \<Rightarrow> error + GenerateContentResponse"

text \<open>
  \<^verbatim>\<open>JSON.parse(...) as LearningGraphData\<close>: a syntax error, or the value of the text.
  The cast checks nothing, so the value is any JSON value.
\<close>

type_synonym JSON_parse = "string \<Rightarrow> error + json"

text \<open>
  \<^verbatim>\<open>ai.chats.create\<close> followed by \<^verbatim>\<open>chat.sendMessage\<close>, as a function of the
  system instruction, the history and the message.
\<close>

type_synonym chat_sendMessage =
  "string \<Rightarrow> HistoryEntry list \<Rightarrow> string \<Rightarrow> error + GenerateContentResponse"

text \<open>\<^verbatim>\<open>try { body } catch (e) { handler }\<close>.\<close>

definition try_catch :: "error + 'a \<Rightarrow> (error \<Rightarrow> error + 'a) \<Rightarrow> error + 'a" where
  "try_catch body handler = (case body of Inl e \<Rightarrow> handler e | Inr v \<Rightarrow> Inr v)"

text \<open>
  The prompt of \<^verbatim>\<open>generateLearningGraph\<close>: the template literal, with the objective
  spliced in.
\<close>

definition systemPrompt :: "string \<Rightarrow> string" where
  \<open>systemPrompt objective' =
       ''\<newline>'' @
       ''    You are the KickLang Swarm Orchestrator operating in '' @ kl @ ''mode:Fluid.\<newline>'' @
       ''    Target Objective: "'' @ objective' @ ''"\<newline>'' @
       ''\<newline>'' @
       ''    ## EXECUTION FLOW: TAS PROCESSING\<newline>'' @
       ''    1. **'' @ kl @ ''cmd/exec:GPTASe**: Extract raw Task-Agnostic Steps (TAS) required to master this objective.\<newline>'' @
       ''    2. **'' @ kl @ ''cmd/exec:puTASe**: Purify these steps (refine, filter, structure) into '' @ kl @ ''data/ptas.\<newline>'' @
       ''    3. **'' @ kl @ ''cmd/exec:Lyra**: Architect a directed knowledge graph from the purified TAS.\<newline>'' @
       ''\<newline>'' @
       ''    ## LYRA CONFIGURATION\<newline>'' @
       ''    - **Nodes**: Represents the purified steps (ptas). 6-10 nodes max.\<newline>'' @
       ''    - **Links**: Dependency flow (prerequisites first).\<newline>'' @
       ''    - **Start**: Must have a node with id 'start'.\<newline>'' @
       ''    - **Output**: Pure JSON matching the schema.\<newline>'' @
       ''\<newline>'' @
       ''    Output ONLY the JSON for Lyra's final graph structure.\<newline>'' @
       ''  ''\<close>

text \<open>
  \<^verbatim>\<open>generateLearningGraph\<close>. A truthy \<^verbatim>\<open>response.text\<close> is a present, non-empty
  string. The result is the promise's outcome: \<open>Inl\<close> would be a rejection. The
  value is what \<^verbatim>\<open>JSON.parse\<close> returned, or the object of the fallback.
  (The \<^verbatim>\<open>console.error\<close> of the handler writes to the browser console only.)
\<close>

definition generateLearningGraph ::
    "generateContent \<Rightarrow> JSON_parse \<Rightarrow> string \<Rightarrow> error + json" where
  "generateLearningGraph ai_generateContent JSON_parse objective' =
     try_catch
       (case ai_generateContent (systemPrompt objective') of
          Inl e \<Rightarrow> Inl e
        | Inr response \<Rightarrow>
            (case text_resp response of
               None \<Rightarrow> Inl (Error ''No data returned'')
             | Some t \<Rightarrow>
                 if t \<noteq> [] then JSON_parse t
                 else Inl (Error ''No data returned'')))
       (\<lambda>error.
          Inr (graph_json
            \<lparr>nodes = [\<lparr>id_node = ''start'', label = ''Start'', status = active, group = None\<rparr>],
             links = []\<rparr>))"

text \<open>
  The system instruction of \<^verbatim>\<open>sendKickLangMessage\<close>: the template literal, with
  the objective, the style and the label of the current node spliced in.
\<close>

definition systemInstruction :: "ChatContext \<Rightarrow> string" where
  \<open>systemInstruction context =
       ''\<newline>'' @
       ''    '' @ kl @ ''version: 2.1\<newline>'' @
       ''    '' @ kl @ ''mode: Fluid\<newline>'' @
       ''    '' @ kl @ ''context: "KickLang Adaptive Tutoring"\<newline>'' @
       ''    \<newline>'' @
       ''    ## CONFIGURATION\<newline>'' @
       ''    '' @ kl @ ''data:\<newline>'' @
       ''      '' @ kl @ ''obj: "'' @ objective_ctx context @ ''"\<newline>'' @
       ''      '' @ kl @ ''var:learning_style = "'' @ LearningStyle_value (style context) @ ''"\<newline>'' @
       ''      '' @ kl @ ''var:current_node = "'' @ currentNode context @ ''"\<newline>'' @
       ''      \<newline>'' @
       ''    ## AGENT ROSTER (SWARM)\<newline>'' @
       ''    - **AI_Tutor**: Primary instructor.\<newline>'' @
       ''    - **DebuggAI**: Error analysis.\<newline>'' @
       ''    - **ScopeGuard**: Prevents tangents.\<newline>'' @
       ''    - **Lyra**: Knowledge graph architect.\<newline>'' @
       ''    - **Dima**: Ethical oversight.\<newline>'' @
       ''    - **Codein**: Implementation helper.\<newline>'' @
       ''    - **AR-00L**: Visual aids.\<newline>'' @
       ''    - **Kick_La_Metta**: Logic translator.\<newline>'' @
       ''    - **WePlan**: Curriculum mapper.\<newline>'' @
       ''\<newline>'' @
       ''    ## CORE FLOW (adaptive_tutoring_template.kl)\<newline>'' @
       ''    1. **Clarify Focus**:\<newline>'' @
       ''       "Current focus: ['' @ currentNode context @ ''].\<newline>'' @
       ''        Choose next step:\<newline>'' @
       ''        A) Explain concept (uses AR-00L)\<newline>'' @
       ''        B) Try it yourself (uses Codein/DebuggAI)\<newline>'' @
       ''        C) Explore prerequisites (uses Lyra)"\<newline>'' @
       ''    \<newline>'' @
       ''    2. **Adapt Mode**:\<newline>'' @
       ''       If style is Socratic -> Ask guiding questions.\<newline>'' @
       ''       If style is Direct -> Explain clearly.\<newline>'' @
       ''\<newline>'' @
       ''    3. **Handle Input**:\<newline>'' @
       ''       - If user chooses A: **AI_Tutor** explains, **AR-00L** describes visuals.\<newline>'' @
       ''       - If user chooses B: **Codein** sets challenge, **DebuggAI** fixes errors.\<newline>'' @
       ''       - If user chooses C: **Lyra** navigates graph.\<newline>'' @
       ''\<newline>'' @
       ''    4. **Guardrails**:\<newline>'' @
       ''       - **ScopeGuard**: If user drifts, ask to save new goal.\<newline>'' @
       ''       - **Dima**: Check for frustration or ethical risks.\<newline>'' @
       ''\<newline>'' @
       ''    ## FORMATTING\<newline>'' @
       ''    - Use Markdown.\<newline>'' @
       ''    - Prefix agent changes with bold names (e.g., "**ScopeGuard:** ...").\<newline>'' @
       ''    - Keep responses concise and flow-oriented.\<newline>'' @
       ''  ''\<close>

text \<open>
  \<^verbatim>\<open>sendKickLangMessage\<close>. It returns \<^verbatim>\<open>result.text\<close> as it is, so the value is a
  string or absent.
\<close>

definition formattedHistory :: "HistoryEntry list \<Rightarrow> HistoryEntry list" where
  "formattedHistory history =
     map (\<lambda>h. \<lparr>role_h = (if role_h h = ''model'' then ''model'' else ''user''),
               parts = parts h\<rparr>) history"

definition sendKickLangMessage ::
    "chat_sendMessage \<Rightarrow> HistoryEntry list \<Rightarrow> string \<Rightarrow> ChatContext
       \<Rightarrow> error + string option" where
  "sendKickLangMessage ai_chat history message context =
     try_catch
       (case ai_chat (systemInstruction context) (formattedHistory history) message of
          Inl e \<Rightarrow> Inl e
        | Inr result \<Rightarrow> Inr (text_resp result))
       (\<lambda>e. Inr (Some
          ''**SystemMonitor:** Neural core interrupt. Re-synchronizing swarm...''))"

section \<open>The author tag of a model response\<close>

text \<open>
  \<^verbatim>\<open>App.tsx\<close>, in \<^verbatim>\<open>handleSendMessage\<close>:
  \<^verbatim>\<open>
  let author = 'AI_Tutor';
  if (responseText.includes('**ScopeGuard')) author = 'ScopeGuard';
  else if (responseText.includes('**DebuggAI')) author = 'DebuggAI';
  else if (responseText.includes('**Dima')) author = 'Dima';
  \<close>
\<close>

definition author :: "string \<Rightarrow> string" where
  "author responseText =
     (if includes_str responseText ''**ScopeGuard'' then ''ScopeGuard''
      else if includes_str responseText ''**DebuggAI'' then ''DebuggAI''
      else if includes_str responseText ''**Dima'' then ''Dima''
      else ''AI_Tutor'')"

text \<open>
  The other revision of the application component (the one with the
  \<^verbatim>\<open>SWARM_AGENTS\<close> roster) checks a longer chain, in this order.
\<close>

definition author_swarm :: "string \<Rightarrow> string" where
  "author_swarm responseText =
     (if includes_str responseText ''**Orchestrator'' then ''Orchestrator''
      else if includes_str responseText ''**ScopeGuard'' then ''ScopeGuard''
      else if includes_str responseText ''**DebuggAI'' then ''DebuggAI''
      else if includes_str responseText ''**Dima'' then ''Dima''
      else if includes_str responseText ''**WePlan'' then ''WePlan''
      else if includes_str responseText ''**Codein'' then ''Codein''
      else if includes_str responseText ''**AR-00L'' then ''AR-00L''
      else if includes_str responseText ''**Kick_La_Metta'' then ''Kick_La_Metta''
      else ''AI_Tutor'')"

text \<open>
  The classifier in the words of the specification: an ordered list of persona names,
  each searched for with the bold prefix in front; the first one found wins, and
  \<^verbatim>\<open>AI_Tutor\<close> is the default.
\<close>

definition classify :: "string list \<Rightarrow> string \<Rightarrow> string" where
  "classify names responseText =
     (case find (\<lambda>name. includes_str responseText (''**'' @ name)) names of
        None \<Rightarrow> ''AI_Tutor''
      | Some name \<Rightarrow> name)"

definition personas :: "string list" where
  "personas = [''ScopeGuard'', ''DebuggAI'', ''Dima'']"

definition personas_swarm :: "string list" where
  "personas_swarm =
     [''Orchestrator'', ''ScopeGuard'', ''DebuggAI'', ''Dima'', ''WePlan'', ''Codein'',
      ''AR-00L'', ''Kick_La_Metta'']"

section \<open>The session (\<^verbatim>\<open>App.tsx\<close>)\<close>

text \<open>
  The state of the component: its \<^verbatim>\<open>useState\<close> cells and the history ref.
  A handler is a function from the state to the state; an \<^verbatim>\<open>async\<close> handler is two
  of them, the part that runs up to the \<^verbatim>\<open>await\<close> and the part that runs when the
  awaited promise settles, so that other events may come between them. Every state
  update the handlers make is either a functional update of the cell's current value or
  a constant. \<^verbatim>\<open>Date.now()\<close> is a parameter for each place that reads it.
  (\<^verbatim>\<open>console.log\<close>, \<^verbatim>\<open>console.error\<close> and \<^verbatim>\<open>alert\<close> do not touch the state.)
  The cells hold values of their declared types. The one place where a value of another
  type can arrive is the unchecked cast of \<^verbatim>\<open>generateLearningGraph\<close>, and
  \<^verbatim>\<open>handleStartSession\<close> below says what becomes of such a value.
\<close>

record App =
  hasStarted :: bool
  isLoading :: bool
  isTyping :: bool
  kickLangState :: KickLangState
  graphData :: LearningGraphData
  messages :: "Message list"
  chatHistoryRef :: "HistoryEntry list"

definition App_init :: App where
  "App_init =
     \<lparr>hasStarted = False, isLoading = False, isTyping = False,
      kickLangState =
        \<lparr>objective = '''', learningStyle = Socratic, currentNodeId = ''start'',
         difficulty = ''intermediate''\<rparr>,
      graphData = INITIAL_GRAPH, messages = [], chatHistoryRef = []\<rparr>"

text \<open>
  \<^verbatim>\<open>graph.nodes.length > 0 ? graph.nodes[0].id : 'start'\<close> and
  \<^verbatim>\<open>graph.nodes[0]?.label || 'Start'\<close> on a graph of the declared type; the default
  of the second also replaces an empty label.
\<close>

definition startNode :: "LearningGraphData \<Rightarrow> string" where
  "startNode g = (case nodes g of [] \<Rightarrow> ''start'' | n # ns \<Rightarrow> id_node n)"

definition startLabel :: "LearningGraphData \<Rightarrow> string" where
  "startLabel g =
     (case nodes g of
        [] \<Rightarrow> ''Start''
      | n # ns \<Rightarrow> if label n \<noteq> [] then label n else ''Start'')"

definition initialMessage :: "string \<Rightarrow> LearningGraphData \<Rightarrow> int \<Rightarrow> Message" where
  "initialMessage obj g now =
     \<lparr>id_msg = ''init-1'', role = model, authorName = Some ''AI_Tutor'',
      text_msg =
        ''Welcome! I've loaded the knowledge graph for **'' @ obj @
        ''**. We are starting at **'' @ startLabel g @
        ''**. \<newline>\<newline>Should we dive right in with an example (Direct) or explore the concept together (Socratic)?'',
      timestamp = now\<rparr>"


text \<open>
  Reading the element \<^verbatim>\<open>v[0]\<close>: of an array its first element, of a string its
  first character, of an object its property \<^verbatim>\<open>0\<close>.
\<close>

fun first :: "jsval \<Rightarrow> error + jsval" where
  "first None = Inl (TypeError ''Cannot read properties of undefined'')"
| "first (Some JNull) = Inl (TypeError ''Cannot read properties of null'')"
| "first (Some (JArr xs)) = Inr (case xs of [] \<Rightarrow> None | x # xs' \<Rightarrow> Some x)"
| "first (Some (JStr s)) = Inr (case s of [] \<Rightarrow> None | c # s' \<Rightarrow> Some (JStr [c]))"
| "first (Some (JObj kvs)) = Inr (map_of kvs ''0'')"
| "first (Some v) = Inr None"




text \<open>\<^verbatim>\<open>handleStartSession\<close> up to the \<^verbatim>\<open>await\<close>.\<close>

definition handleStartSession_call :: "string \<Rightarrow> App \<Rightarrow> App" where
  "handleStartSession_call obj st = st\<lparr>isLoading := True\<rparr>"

text \<open>
  The state after the \<^verbatim>\<open>try\<close> block has run to its end on a graph of the declared
  type, and \<^verbatim>\<open>finally\<close> after it.
\<close>

definition startSession_state :: "string \<Rightarrow> int \<Rightarrow> LearningGraphData \<Rightarrow> App \<Rightarrow> App" where
  "startSession_state obj now g st =
     st\<lparr>graphData := g,
        kickLangState := (kickLangState st)\<lparr>objective := obj, currentNodeId := startNode g\<rparr>,
        messages := [initialMessage obj g now],
        chatHistoryRef :=
          [\<lparr>role_h = ''model'', parts = [\<lparr>text_part = text_msg (initialMessage obj g now)\<rparr>]\<rparr>],
        hasStarted := True,
        isLoading := False\<rparr>"




text \<open>The optimistic user message; \<open>t1\<close> and \<open>t2\<close> are the two clock readings.\<close>

definition userMsg :: "string \<Rightarrow> int \<Rightarrow> int \<Rightarrow> Message" where
  "userMsg txt t1 t2 =
     \<lparr>id_msg = Number_toString t1, role = user, authorName = None, text_msg = txt,
      timestamp = t2\<rparr>"

text \<open>\<^verbatim>\<open>handleSendMessage\<close> up to the \<^verbatim>\<open>await\<close>.\<close>

definition handleSendMessage_call :: "string \<Rightarrow> int \<Rightarrow> int \<Rightarrow> App \<Rightarrow> App" where
  "handleSendMessage_call txt t1 t2 st =
     st\<lparr>messages := messages st @ [userMsg txt t1 t2],
        isTyping := True,
        chatHistoryRef :=
          chatHistoryRef st @ [\<lparr>role_h = ''user'', parts = [\<lparr>text_part = txt\<rparr>]\<rparr>]\<rparr>"

text \<open>
  The context argument:
  \<^verbatim>\<open>graphData.nodes.find(n => n.id === kickLangState.currentNodeId)?.label || 'Unknown'\<close>
\<close>

definition currentNodeLabel :: "App \<Rightarrow> string" where
  "currentNodeLabel st =
     (case find (\<lambda>n. id_node n = currentNodeId (kickLangState st)) (nodes (graphData st)) of
        None \<Rightarrow> ''Unknown''
      | Some n \<Rightarrow> if label n \<noteq> [] then label n else ''Unknown'')"

definition chatContext :: "App \<Rightarrow> ChatContext" where
  "chatContext st =
     \<lparr>objective_ctx = objective (kickLangState st),
      style = learningStyle (kickLangState st),
      currentNode = currentNodeLabel st,
      graph = graphData st\<rparr>"

definition botMsg :: "string \<Rightarrow> int \<Rightarrow> int \<Rightarrow> Message" where
  "botMsg responseText t3 t4 =
     \<lparr>id_msg = Number_toString (t3 + 1), role = model,
      authorName = Some (author responseText), text_msg = responseText, timestamp = t4\<rparr>"

text \<open>
  \<^verbatim>\<open>handleSendMessage\<close> from the \<^verbatim>\<open>await\<close> on, given the outcome of
  \<^verbatim>\<open>sendKickLangMessage\<close>. On an absent text \<^verbatim>\<open>responseText.includes\<close> throws
  a \<^verbatim>\<open>TypeError\<close>; it and a rejection go to the \<^verbatim>\<open>catch\<close>, which only
  reports. \<^verbatim>\<open>finally\<close> clears the typing flag on every path.
\<close>

definition handleSendMessage_resume ::
    "error + string option \<Rightarrow> int \<Rightarrow> int \<Rightarrow> App \<Rightarrow> App" where
  "handleSendMessage_resume outcome t3 t4 st =
     (case outcome of
        Inl e \<Rightarrow> st\<lparr>isTyping := False\<rparr>
      | Inr None \<Rightarrow> st\<lparr>isTyping := False\<rparr>
      | Inr (Some responseText) \<Rightarrow>
          st\<lparr>messages := messages st @ [botMsg responseText t3 t4],
             chatHistoryRef :=
               chatHistoryRef st @ [\<lparr>role_h = ''model'', parts = [\<lparr>text_part = responseText\<rparr>]\<rparr>],
             isTyping := False\<rparr>)"

text \<open>The whole handler, when nothing comes between the call and its completion.\<close>

definition handleSendMessage ::
    "chat_sendMessage \<Rightarrow> string \<Rightarrow> int \<Rightarrow> int \<Rightarrow> int \<Rightarrow> int \<Rightarrow> App \<Rightarrow> App" where
  "handleSendMessage ai_chat txt t1 t2 t3 t4 st =
     handleSendMessage_resume
       (sendKickLangMessage ai_chat
          (chatHistoryRef (handleSendMessage_call txt t1 t2 st)) txt (chatContext st))
       t3 t4
       (handleSendMessage_call txt t1 t2 st)"

definition handleNodeClick :: "string \<Rightarrow> App \<Rightarrow> App" where
  "handleNodeClick nodeId st =
     st\<lparr>kickLangState := (kickLangState st)\<lparr>currentNodeId := nodeId\<rparr>\<rparr>"

definition toggleStyle :: "App \<Rightarrow> App" where
  "toggleStyle st =
     st\<lparr>kickLangState := (kickLangState st)
          \<lparr>learningStyle :=
             (if learningStyle (kickLangState st) = Socratic then Direct else Socratic)\<rparr>\<rparr>"

text \<open>
  What can happen to a session: the four triggers of the interface, the two asynchronous
  ones split into call and completion. A session is any sequence of them from the
  initial state. The completion of a start carries a graph of the declared type, or the
  exception that went to the \<^verbatim>\<open>catch\<close>; the graph cell of a failed start is not
  followed.
\<close>

datatype event =
    StartSession_call string
  | StartSession_resume string int "error + LearningGraphData"
  | SendMessage_call string int int
  | SendMessage_resume "error + string option" int int
  | NodeClick string
  | ToggleStyle

fun step :: "App \<Rightarrow> event \<Rightarrow> App" where
  "step st (StartSession_call obj) = handleStartSession_call obj st"
| "step st (StartSession_resume obj now outcome) =
     (case outcome of
        Inl e \<Rightarrow> st\<lparr>isLoading := False\<rparr>
      | Inr g \<Rightarrow> startSession_state obj now g st)"
| "step st (SendMessage_call txt t1 t2) = handleSendMessage_call txt t1 t2 st"
| "step st (SendMessage_resume outcome t3 t4) = handleSendMessage_resume outcome t3 t4 st"
| "step st (NodeClick nodeId) = handleNodeClick nodeId st"
| "step st ToggleStyle = toggleStyle st"

definition run :: "event list \<Rightarrow> App" where
  "run evs = foldl step App_init evs"

section \<open>Concrete collaborators\<close>

text \<open>
  The scenario of the specification: for the objective \<^verbatim>\<open>Learn recursion\<close> a mock
  model returns a graph of two nodes and one link.
\<close>

definition mock_graph :: LearningGraphData where
  "mock_graph =
     \<lparr>nodes =
        [\<lparr>id_node = ''start'', label = ''Start'', status = active, group = None\<rparr>,
         \<lparr>id_node = ''n2'', label = ''Base Case'', status = pending, group = None\<rparr>],
      links = [\<lparr>source = ''start'', target = ''n2''\<rparr>]\<rparr>"

definition mock_text :: string where
  \<open>mock_text =
     ''{"nodes":[{"id":"start","label":"Start","status":"active"},'' @
     ''{"id":"n2","label":"Base Case","status":"pending"}],'' @
     ''"links":[{"source":"start","target":"n2"}]}''\<close>

definition mock_generateContent :: generateContent where
  "mock_generateContent contents = Inr \<lparr>text_resp = Some mock_text\<rparr>"

text \<open>A parser that agrees with \<^verbatim>\<open>JSON.parse\<close> on the mock text and rejects the rest.\<close>

definition mock_JSON_parse :: JSON_parse where
  "mock_JSON_parse t =
     (if t = mock_text then Inr (graph_json mock_graph)
      else Inl (SyntaxError ''Unexpected token''))"

text \<open>A model that cannot be reached, one that answers with an empty text, and one
  whose response carries no text.\<close>

definition failing_generateContent :: generateContent where
  "failing_generateContent contents = Inl (ApiError ''fetch failed'')"

definition empty_generateContent :: generateContent where
  "empty_generateContent contents = Inr \<lparr>text_resp = Some []\<rparr>"

definition silent_generateContent :: generateContent where
  "silent_generateContent contents = Inr \<lparr>text_resp = None\<rparr>"

definition failing_chat :: chat_sendMessage where
  "failing_chat instruction history message = Inl (ApiError ''fetch failed'')"

definition scopeguard_chat :: chat_sendMessage where
  "scopeguard_chat instruction history message =
     Inr \<lparr>text_resp = Some ''**ScopeGuard:** focus''\<rparr>"

text \<open>A model whose reply happens to be the text that the service returns on failure.\<close>

definition monitor_chat :: chat_sendMessage where
  "monitor_chat instruction history message =
     Inr \<lparr>text_resp =
       Some ''**SystemMonitor:** Neural core interrupt. Re-synchronizing swarm...''\<rparr>"

text \<open>What the prompt asks of the model's graph: a node \<^verbatim>\<open>start\<close> and 6 to 10 nodes.\<close>

definition as_prompted :: "LearningGraphData \<Rightarrow> bool" where
  "as_prompted g \<longleftrightarrow>
     ''start'' \<in> set (map id_node (nodes g)) \<and> 6 \<le> length (nodes g) \<and> length (nodes g) \<le> 10"

text \<open>A chat model whose response carries no text.\<close>

definition silent_chat :: chat_sendMessage where
  "silent_chat instruction history message = Inr \<lparr>text_resp = None\<rparr>"

text \<open>The session of the scenario, once started.\<close>

definition mock_session :: App where
  "mock_session =
     startSession_state ''Learn recursion'' 0 mock_graph
       (handleStartSession_call ''Learn recursion'' App_init)"






section \<open>Containment\<close>

lemma digits_example: "Number_toString 1730000000123 = ''1730000000123''"
  by (simp add: Number_toString_def digits.simps)

lemma startsWith_iff: "startsWith s m \<longleftrightarrow> (\<exists>ss. s = m @ ss)"
  by (induction s m rule: startsWith.induct) auto

text \<open>\<^const>\<open>includes_str\<close> is containment as a contiguous substring.\<close>

lemma includes_str_iff: "includes_str s m \<longleftrightarrow> (\<exists>ps ss. s = ps @ m @ ss)"
proof (induction s)
  case Nil
  then show ?case by auto
next
  case (Cons x s)
  show ?case
  proof
    assume "includes_str (x # s) m"
    then consider "startsWith (x # s) m" | "includes_str s m" by auto
    then show "\<exists>ps ss. x # s = ps @ m @ ss"
    proof cases
      case 1
      then obtain ss where "x # s = m @ ss" by (auto simp: startsWith_iff)
      then have "x # s = [] @ m @ ss" by simp
      then show ?thesis by blast
    next
      case 2
      then obtain ps ss where "s = ps @ m @ ss" using Cons.IH by blast
      then have "x # s = (x # ps) @ m @ ss" by simp
      then show ?thesis by blast
    qed
  next
    assume "\<exists>ps ss. x # s = ps @ m @ ss"
    then obtain ps ss where eq: "x # s = ps @ m @ ss" by blast
    show "includes_str (x # s) m"
    proof (cases ps)
      case Nil
      with eq have "startsWith (x # s) m" by (auto simp: startsWith_iff)
      then show ?thesis by simp
    next
      case (Cons p ps')
      with eq have "s = ps' @ m @ ss" by simp
      then have "includes_str s m" using Cons.IH by blast
      then show ?thesis by simp
    qed
  qed
qed

lemma includes_str_longer: "includes_str s (a @ b) \<Longrightarrow> includes_str s a"
proof -
  assume "includes_str s (a @ b)"
  then obtain ps ss where "s = ps @ (a @ b) @ ss" by (auto simp: includes_str_iff)
  then have "s = ps @ a @ (b @ ss)" by simp
  then show ?thesis unfolding includes_str_iff by blast
qed

lemma includes_str_middle: "includes_str (a @ m @ b) m"
  unfolding includes_str_iff by blast

lemma no_bold_no_marker: "\<not> includes_str s ''**'' \<Longrightarrow> \<not> includes_str s (''**'' @ name)"
  using includes_str_longer by blast

section \<open>The author tag\<close>

lemma author_refines: "author s = classify personas s"
  by (simp add: author_def classify_def personas_def)

lemma author_swarm_refines: "author_swarm s = classify personas_swarm s"
  by (simp add: author_swarm_def classify_def personas_swarm_def)

lemma classify_in_names: "classify names s \<in> set (''AI_Tutor'' # names)"
proof (cases "find (\<lambda>name. includes_str s (''**'' @ name)) names")
  case None
  then show ?thesis by (simp add: classify_def)
next
  case (Some name)
  then have "name \<in> set names" by (auto simp: find_Some_iff)
  with Some show ?thesis by (simp add: classify_def)
qed

lemma classify_default: "\<not> includes_str s ''**'' \<Longrightarrow> classify names s = ''AI_Tutor''"
proof -
  assume nb: "\<not> includes_str s ''**''"
  have "find (\<lambda>name. includes_str s (''**'' @ name)) names = None"
    using no_bold_no_marker [OF nb] by (simp add: find_None_iff)
  then show ?thesis by (simp add: classify_def)
qed

lemma scopeguard_focus: "includes_str s ''**ScopeGuard:** focus'' \<Longrightarrow> includes_str s ''**ScopeGuard''"
  using includes_str_longer [of s "''**ScopeGuard''" "'':** focus''"] by simp

text \<open>
  C4, as stated, fails for the longer chain. A text can contain
  \<^verbatim>\<open>**ScopeGuard:** focus\<close> and be tagged otherwise: that chain looks for
  \<^verbatim>\<open>**Orchestrator\<close> first.
\<close>

theorem author_swarm_precedence:
  "includes_str ''**Orchestrator:** over to **ScopeGuard:** focus'' ''**ScopeGuard:** focus''
   \<and> author_swarm ''**Orchestrator:** over to **ScopeGuard:** focus'' = ''Orchestrator''
   \<and> author_swarm ''**Orchestrator:** over to **ScopeGuard:** focus'' \<noteq> ''ScopeGuard''"
  by (simp add: author_swarm_def)

text \<open>
  C4, amended. The author tag is a function of the response text alone, defined on every
  string. It is the specification's classifier: the first persona of the ordered list
  whose bold-prefixed name occurs in the text, and \<^verbatim>\<open>AI_Tutor\<close> when none does; so
  its value is always one of the fixed names, and a text with no bold marker is tagged
  \<^verbatim>\<open>AI_Tutor\<close>. Under the chain of \<^verbatim>\<open>App.tsx\<close> every text that contains
  \<^verbatim>\<open>**ScopeGuard:** focus\<close> is tagged \<^verbatim>\<open>ScopeGuard\<close>. Under the longer chain of
  the other revision, where \<^verbatim>\<open>Orchestrator\<close> comes first in the order, such a text is
  tagged \<^verbatim>\<open>ScopeGuard\<close> unless it also contains \<^verbatim>\<open>**Orchestrator\<close>, and every
  text that contains \<^verbatim>\<open>**Orchestrator\<close> is tagged \<^verbatim>\<open>Orchestrator\<close>.
\<close>

theorem author_classifies:
  "author s = classify [''ScopeGuard'', ''DebuggAI'', ''Dima''] s
   \<and> author s \<in> {''AI_Tutor'', ''ScopeGuard'', ''DebuggAI'', ''Dima''}
   \<and> (includes_str s ''**ScopeGuard:** focus'' \<longrightarrow> author s = ''ScopeGuard'')
   \<and> (\<not> includes_str s ''**'' \<longrightarrow> author s = ''AI_Tutor'')
   \<and> author_swarm s =
       classify [''Orchestrator'', ''ScopeGuard'', ''DebuggAI'', ''Dima'', ''WePlan'',
                 ''Codein'', ''AR-00L'', ''Kick_La_Metta''] s
   \<and> author_swarm s \<in>
       {''AI_Tutor'', ''Orchestrator'', ''ScopeGuard'', ''DebuggAI'', ''Dima'', ''WePlan'',
        ''Codein'', ''AR-00L'', ''Kick_La_Metta''}
   \<and> (includes_str s ''**ScopeGuard:** focus'' \<and> \<not> includes_str s ''**Orchestrator''
        \<longrightarrow> author_swarm s = ''ScopeGuard'')
   \<and> (includes_str s ''**Orchestrator'' \<longrightarrow> author_swarm s = ''Orchestrator'')
   \<and> (\<not> includes_str s ''**'' \<longrightarrow> author_swarm s = ''AI_Tutor'')
   \<and> author ''**ScopeGuard:** focus'' = ''ScopeGuard''
   \<and> author_swarm ''**ScopeGuard:** focus'' = ''ScopeGuard''"
proof -
  have r1: "author s = classify [''ScopeGuard'', ''DebuggAI'', ''Dima''] s"
    using author_refines [of s] by (simp add: personas_def)
  have r2: "author_swarm s =
       classify [''Orchestrator'', ''ScopeGuard'', ''DebuggAI'', ''Dima'', ''WePlan'',
                 ''Codein'', ''AR-00L'', ''Kick_La_Metta''] s"
    using author_swarm_refines [of s] by (simp add: personas_swarm_def)
  have m1: "author s \<in> {''AI_Tutor'', ''ScopeGuard'', ''DebuggAI'', ''Dima''}"
    using classify_in_names [of "[''ScopeGuard'', ''DebuggAI'', ''Dima'']" s]
    unfolding r1 by simp
  have m2: "author_swarm s \<in>
       {''AI_Tutor'', ''Orchestrator'', ''ScopeGuard'', ''DebuggAI'', ''Dima'', ''WePlan'',
        ''Codein'', ''AR-00L'', ''Kick_La_Metta''}"
    using classify_in_names [of "[''Orchestrator'', ''ScopeGuard'', ''DebuggAI'', ''Dima'',
      ''WePlan'', ''Codein'', ''AR-00L'', ''Kick_La_Metta'']" s]
    unfolding r2 by simp
  have s1: "includes_str s ''**ScopeGuard:** focus'' \<longrightarrow> author s = ''ScopeGuard''"
    using scopeguard_focus [of s] by (simp add: author_def)
  have s2: "includes_str s ''**ScopeGuard:** focus'' \<and> \<not> includes_str s ''**Orchestrator''
        \<longrightarrow> author_swarm s = ''ScopeGuard''"
    using scopeguard_focus [of s] by (simp add: author_swarm_def)
  have o2: "includes_str s ''**Orchestrator'' \<longrightarrow> author_swarm s = ''Orchestrator''"
    by (simp add: author_swarm_def)
  have d1: "\<not> includes_str s ''**'' \<longrightarrow> author s = ''AI_Tutor''"
    unfolding r1 using classify_default by blast
  have d2: "\<not> includes_str s ''**'' \<longrightarrow> author_swarm s = ''AI_Tutor''"
    unfolding r2 using classify_default by blast
  have e1: "author ''**ScopeGuard:** focus'' = ''ScopeGuard''"
    by (simp add: author_def)
  have e2: "author_swarm ''**ScopeGuard:** focus'' = ''ScopeGuard''"
    by (simp add: author_swarm_def)
  show ?thesis
    by (intro conjI r1 m1 s1 d1 r2 m2 s2 o2 d2 e1 e2)
qed

theorem author_classifies_witness:
  "includes_str ''Wait. **ScopeGuard:** focus on the base case.'' ''**ScopeGuard:** focus''
   \<and> author ''Wait. **ScopeGuard:** focus on the base case.'' = ''ScopeGuard''
   \<and> author_swarm ''Wait. **ScopeGuard:** focus on the base case.'' = ''ScopeGuard''
   \<and> \<not> includes_str ''Wait. **ScopeGuard:** focus on the base case.'' ''**Orchestrator''
   \<and> \<not> includes_str ''Let us look at the base case.'' ''**''
   \<and> author ''Let us look at the base case.'' = ''AI_Tutor''
   \<and> author_swarm ''Let us look at the base case.'' = ''AI_Tutor''
   \<and> includes_str ''**Orchestrator:** over to **ScopeGuard:** focus'' ''**Orchestrator''
   \<and> author_swarm ''**Orchestrator:** over to **ScopeGuard:** focus'' = ''Orchestrator''
   \<and> author ''**Orchestrator:** over to **ScopeGuard:** focus'' = ''ScopeGuard''"
proof -
  have h1: "includes_str ''Wait. **ScopeGuard:** focus on the base case.'' ''**ScopeGuard:** focus''"
    by simp
  have h2: "\<not> includes_str ''Wait. **ScopeGuard:** focus on the base case.'' ''**Orchestrator''"
    by simp
  have h3: "\<not> includes_str ''Let us look at the base case.'' ''**''"
    by simp
  note a = author_classifies [of "''Wait. **ScopeGuard:** focus on the base case.''"]
  note b = author_classifies [of "''Let us look at the base case.''"]
  have w1: "author ''Wait. **ScopeGuard:** focus on the base case.'' = ''ScopeGuard''"
    using a h1 by (elim conjE) (rule mp)
  have w2: "author_swarm ''Wait. **ScopeGuard:** focus on the base case.'' = ''ScopeGuard''"
    using a h1 h2 by (elim conjE) (rule mp, assumption, rule conjI)
  have w3: "author ''Let us look at the base case.'' = ''AI_Tutor''"
    using b h3 by (elim conjE) (rule mp)
  have w4: "author_swarm ''Let us look at the base case.'' = ''AI_Tutor''"
    using b h3 by (elim conjE) (rule mp)
  have h4: "includes_str ''**Orchestrator:** over to **ScopeGuard:** focus'' ''**Orchestrator''"
    by simp
  have h5: "includes_str ''**Orchestrator:** over to **ScopeGuard:** focus'' ''**ScopeGuard:** focus''"
    by simp
  note c = author_classifies [of "''**Orchestrator:** over to **ScopeGuard:** focus''"]
  have w5: "author_swarm ''**Orchestrator:** over to **ScopeGuard:** focus'' = ''Orchestrator''"
    using c h4 by (elim conjE) (rule mp)
  have w6: "author ''**Orchestrator:** over to **ScopeGuard:** focus'' = ''ScopeGuard''"
    using c h5 by (elim conjE) (rule mp)
  show ?thesis
    by (intro conjI h1 h2 h3 w1 w2 w3 w4 h4 w5 w6)
qed

section \<open>The model service\<close>

lemma generateLearningGraph_returns:
  "\<exists>g. generateLearningGraph gc parse obj = Inr g"
  by (simp add: generateLearningGraph_def try_catch_def split: sum.splits option.splits)

lemma generateLearningGraph_parsed:
  assumes "gc (systemPrompt obj) = Inr r" and "text_resp r = Some t" and "t \<noteq> []"
    and "parse t = Inr g"
  shows "generateLearningGraph gc parse obj = Inr g"
  using assms by (simp add: generateLearningGraph_def try_catch_def)

lemma generateLearningGraph_cases:
  "generateLearningGraph gc parse obj =
     Inr (graph_json
       \<lparr>nodes = [\<lparr>id_node = ''start'', label = ''Start'', status = active, group = None\<rparr>],
        links = []\<rparr>)
   \<or> (\<exists>r t g. gc (systemPrompt obj) = Inr r \<and> text_resp r = Some t \<and> t \<noteq> []
          \<and> parse t = Inr g \<and> generateLearningGraph gc parse obj = Inr g)"
  by (auto simp add: generateLearningGraph_def try_catch_def split: sum.splits option.splits)

lemma generateLearningGraph_throws:
  assumes "gc (systemPrompt obj) = Inl e"
  shows "generateLearningGraph gc parse obj =
     Inr (graph_json
       \<lparr>nodes = [\<lparr>id_node = ''start'', label = ''Start'', status = active, group = None\<rparr>],
        links = []\<rparr>)"
  using assms by (simp add: generateLearningGraph_def try_catch_def)

lemma generateLearningGraph_no_text:
  assumes "gc (systemPrompt obj) = Inr r" and "text_resp r = None \<or> text_resp r = Some []"
  shows "generateLearningGraph gc parse obj =
     Inr (graph_json
       \<lparr>nodes = [\<lparr>id_node = ''start'', label = ''Start'', status = active, group = None\<rparr>],
        links = []\<rparr>)"
  using assms by (auto simp add: generateLearningGraph_def try_catch_def)

lemma generateLearningGraph_parse_throws:
  assumes "gc (systemPrompt obj) = Inr r" and "text_resp r = Some t" and "parse t = Inl e"
  shows "generateLearningGraph gc parse obj =
     Inr (graph_json
       \<lparr>nodes = [\<lparr>id_node = ''start'', label = ''Start'', status = active, group = None\<rparr>],
        links = []\<rparr>)"
  using assms by (simp add: generateLearningGraph_def try_catch_def)

text \<open>The fallback, written out as the object it is.\<close>

lemma fallback_json:
  "graph_json
     \<lparr>nodes = [\<lparr>id_node = ''start'', label = ''Start'', status = active, group = None\<rparr>],
      links = []\<rparr> =
   JObj [(''nodes'', JArr [JObj [(''id'', JStr ''start''), (''label'', JStr ''Start''),
                                 (''status'', JStr ''active'')]]),
         (''links'', JArr [])]"
  by (simp add: graph_json_def node_json_def)

lemma mock_text_truthy: "mock_text \<noteq> []"
  by (simp add: mock_text_def)

lemma generateLearningGraph_mock:
  "generateLearningGraph mock_generateContent mock_JSON_parse obj = Inr (graph_json mock_graph)"
  by (simp add: generateLearningGraph_def try_catch_def mock_generateContent_def
      mock_JSON_parse_def mock_text_truthy)

text \<open>
  C1, as stated, fails. For the objective \<^verbatim>\<open>Learn recursion\<close> and the mock model of
  the specification's own scenario, the function returns the mock graph (as the value it
  is at run time): it has two nodes, not six to ten, and it is not the fallback graph.
\<close>

theorem generateLearningGraph_unvalidated:
  "generateLearningGraph mock_generateContent mock_JSON_parse ''Learn recursion'' =
     Inr (graph_json mock_graph)
   \<and> \<not> as_prompted mock_graph
   \<and> graph_json mock_graph \<noteq>
       graph_json
         \<lparr>nodes = [\<lparr>id_node = ''start'', label = ''Start'', status = active, group = None\<rparr>],
          links = []\<rparr>"
proof (intro conjI)
  show "generateLearningGraph mock_generateContent mock_JSON_parse ''Learn recursion'' =
     Inr (graph_json mock_graph)"
    by (rule generateLearningGraph_mock)
  show "\<not> as_prompted mock_graph"
    by (simp add: as_prompted_def mock_graph_def)
  show "graph_json mock_graph \<noteq>
       graph_json
         \<lparr>nodes = [\<lparr>id_node = ''start'', label = ''Start'', status = active, group = None\<rparr>],
          links = []\<rparr>"
    by (simp add: graph_json_def mock_graph_def)
qed

text \<open>
  C1, amended. For every objective, \<^verbatim>\<open>generateLearningGraph\<close> returns either the
  value that \<^verbatim>\<open>JSON.parse\<close> made of the model's non-empty response text, verbatim and
  whatever that value is (no check of its nodes, of a \<^verbatim>\<open>start\<close> node or of its
  links), or the exact fallback graph of the single node
  \<^verbatim>\<open>{id: 'start', label: 'Start', status: 'active'}\<close> and no links.
\<close>

theorem generateLearningGraph_verbatim_or_fallback:
  "(gc (systemPrompt obj) = Inr r \<and> text_resp r = Some t \<and> t \<noteq> [] \<and> parse t = Inr g
      \<longrightarrow> generateLearningGraph gc parse obj = Inr g)
   \<and> (generateLearningGraph gc parse obj =
         Inr (graph_json
           \<lparr>nodes = [\<lparr>id_node = ''start'', label = ''Start'', status = active, group = None\<rparr>],
            links = []\<rparr>)
       \<or> (\<exists>r t g. gc (systemPrompt obj) = Inr r \<and> text_resp r = Some t \<and> t \<noteq> []
              \<and> parse t = Inr g \<and> generateLearningGraph gc parse obj = Inr g))"
  using generateLearningGraph_parsed [of gc obj r t parse g]
    generateLearningGraph_cases [of gc parse obj]
  by (intro conjI impI) (elim conjE, assumption+)

theorem generateLearningGraph_verbatim_or_fallback_witness:
  "mock_generateContent (systemPrompt ''Learn recursion'') = Inr \<lparr>text_resp = Some mock_text\<rparr>
   \<and> mock_text \<noteq> []
   \<and> mock_JSON_parse mock_text = Inr (graph_json mock_graph)
   \<and> generateLearningGraph mock_generateContent mock_JSON_parse ''Learn recursion'' =
       Inr (graph_json mock_graph)"
proof -
  have h1: "mock_generateContent (systemPrompt ''Learn recursion'') = Inr \<lparr>text_resp = Some mock_text\<rparr>"
    by (simp add: mock_generateContent_def)
  have h2: "text_resp \<lparr>text_resp = Some mock_text\<rparr> = Some mock_text"
    by simp
  have h3: "mock_JSON_parse mock_text = Inr (graph_json mock_graph)"
    by (simp add: mock_JSON_parse_def)
  note w = generateLearningGraph_verbatim_or_fallback
    [where gc = mock_generateContent and obj = "''Learn recursion''"
       and r = "\<lparr>text_resp = Some mock_text\<rparr>" and t = mock_text
       and parse = mock_JSON_parse and g = "graph_json mock_graph"]
  have "generateLearningGraph mock_generateContent mock_JSON_parse ''Learn recursion'' =
      Inr (graph_json mock_graph)"
    using w h1 h2 h3 mock_text_truthy by blast
  with h1 h3 mock_text_truthy show ?thesis by blast
qed

text \<open>
  C2. Whatever the objective: when the model invocation throws, when its response has no
  text or an empty one, and also when the text does not parse, the function returns the
  fallback graph of exactly one node \<^verbatim>\<open>{id: 'start', label: 'Start', status: 'active'}\<close>
  and no links. The promise it returns never rejects.
\<close>

theorem generateLearningGraph_fallback:
  "(gc (systemPrompt obj) = Inl e \<longrightarrow>
      generateLearningGraph gc parse obj =
        Inr (graph_json
          \<lparr>nodes = [\<lparr>id_node = ''start'', label = ''Start'', status = active, group = None\<rparr>],
           links = []\<rparr>))
   \<and> (gc (systemPrompt obj) = Inr r \<and> (text_resp r = None \<or> text_resp r = Some []) \<longrightarrow>
      generateLearningGraph gc parse obj =
        Inr (graph_json
          \<lparr>nodes = [\<lparr>id_node = ''start'', label = ''Start'', status = active, group = None\<rparr>],
           links = []\<rparr>))
   \<and> (gc (systemPrompt obj) = Inr r \<and> text_resp r = Some t \<and> parse t = Inl e' \<longrightarrow>
      generateLearningGraph gc parse obj =
        Inr (graph_json
          \<lparr>nodes = [\<lparr>id_node = ''start'', label = ''Start'', status = active, group = None\<rparr>],
           links = []\<rparr>))
   \<and> (\<exists>g. generateLearningGraph gc parse obj = Inr g)"
proof (intro conjI impI)
  assume "gc (systemPrompt obj) = Inl e"
  then show "generateLearningGraph gc parse obj =
        Inr (graph_json
          \<lparr>nodes = [\<lparr>id_node = ''start'', label = ''Start'', status = active, group = None\<rparr>],
           links = []\<rparr>)"
    by (rule generateLearningGraph_throws)
next
  assume "gc (systemPrompt obj) = Inr r \<and> (text_resp r = None \<or> text_resp r = Some [])"
  then show "generateLearningGraph gc parse obj =
        Inr (graph_json
          \<lparr>nodes = [\<lparr>id_node = ''start'', label = ''Start'', status = active, group = None\<rparr>],
           links = []\<rparr>)"
    using generateLearningGraph_no_text [of gc obj r parse] by blast
next
  assume "gc (systemPrompt obj) = Inr r \<and> text_resp r = Some t \<and> parse t = Inl e'"
  then show "generateLearningGraph gc parse obj =
        Inr (graph_json
          \<lparr>nodes = [\<lparr>id_node = ''start'', label = ''Start'', status = active, group = None\<rparr>],
           links = []\<rparr>)"
    using generateLearningGraph_parse_throws [of gc obj r t parse e'] by blast
next
  show "\<exists>g. generateLearningGraph gc parse obj = Inr g"
    by (rule generateLearningGraph_returns)
qed

theorem generateLearningGraph_fallback_witness:
  "generateLearningGraph failing_generateContent mock_JSON_parse ''Learn recursion'' =
     Inr (graph_json
       \<lparr>nodes = [\<lparr>id_node = ''start'', label = ''Start'', status = active, group = None\<rparr>],
        links = []\<rparr>)
   \<and> generateLearningGraph empty_generateContent mock_JSON_parse ''Learn recursion'' =
     Inr (graph_json
       \<lparr>nodes = [\<lparr>id_node = ''start'', label = ''Start'', status = active, group = None\<rparr>],
        links = []\<rparr>)
   \<and> generateLearningGraph silent_generateContent mock_JSON_parse ''Learn recursion'' =
     Inr (graph_json
       \<lparr>nodes = [\<lparr>id_node = ''start'', label = ''Start'', status = active, group = None\<rparr>],
        links = []\<rparr>)"
proof (intro conjI)
  have h: "failing_generateContent (systemPrompt ''Learn recursion'') = Inl (ApiError ''fetch failed'')"
    by (simp add: failing_generateContent_def)
  show "generateLearningGraph failing_generateContent mock_JSON_parse ''Learn recursion'' =
     Inr (graph_json
       \<lparr>nodes = [\<lparr>id_node = ''start'', label = ''Start'', status = active, group = None\<rparr>],
        links = []\<rparr>)"
    using h generateLearningGraph_fallback
      [where gc = failing_generateContent and obj = "''Learn recursion''"
         and e = "ApiError ''fetch failed''" and parse = mock_JSON_parse]
    by blast
next
  have h: "empty_generateContent (systemPrompt ''Learn recursion'') = Inr \<lparr>text_resp = Some []\<rparr>"
    by (simp add: empty_generateContent_def)
  have t: "text_resp \<lparr>text_resp = Some []\<rparr> = Some []"
    by simp
  show "generateLearningGraph empty_generateContent mock_JSON_parse ''Learn recursion'' =
     Inr (graph_json
       \<lparr>nodes = [\<lparr>id_node = ''start'', label = ''Start'', status = active, group = None\<rparr>],
        links = []\<rparr>)"
    using h t generateLearningGraph_fallback
      [where gc = empty_generateContent and obj = "''Learn recursion''"
         and r = "\<lparr>text_resp = Some []\<rparr>" and parse = mock_JSON_parse]
    by blast
next
  have h: "silent_generateContent (systemPrompt ''Learn recursion'') = Inr \<lparr>text_resp = None\<rparr>"
    by (simp add: silent_generateContent_def)
  have t: "text_resp \<lparr>text_resp = None\<rparr> = None"
    by simp
  show "generateLearningGraph silent_generateContent mock_JSON_parse ''Learn recursion'' =
     Inr (graph_json
       \<lparr>nodes = [\<lparr>id_node = ''start'', label = ''Start'', status = active, group = None\<rparr>],
        links = []\<rparr>)"
    using h t generateLearningGraph_fallback
      [where gc = silent_generateContent and obj = "''Learn recursion''"
         and r = "\<lparr>text_resp = None\<rparr>" and parse = mock_JSON_parse]
    by blast
qed

lemma sendKickLangMessage_returns:
  "\<exists>v. sendKickLangMessage chat history message ctx = Inr v"
  by (simp add: sendKickLangMessage_def try_catch_def split: sum.splits)

lemma sendKickLangMessage_throws:
  assumes "chat (systemInstruction ctx) (formattedHistory history) message = Inl e"
  shows "sendKickLangMessage chat history message ctx =
     Inr (Some ''**SystemMonitor:** Neural core interrupt. Re-synchronizing swarm...'')"
  using assms by (simp add: sendKickLangMessage_def try_catch_def)

lemma sendKickLangMessage_replies:
  assumes "chat (systemInstruction ctx) (formattedHistory history) message = Inr r"
  shows "sendKickLangMessage chat history message ctx = Inr (text_resp r)"
  using assms by (simp add: sendKickLangMessage_def try_catch_def)

lemma sendKickLangMessage_failing_chat:
  "sendKickLangMessage failing_chat history message ctx =
     Inr (Some ''**SystemMonitor:** Neural core interrupt. Re-synchronizing swarm...'')"
  by (rule sendKickLangMessage_throws) (simp add: failing_chat_def)

lemma sendKickLangMessage_monitor_chat:
  "sendKickLangMessage monitor_chat history message ctx =
     Inr (Some ''**SystemMonitor:** Neural core interrupt. Re-synchronizing swarm...'')"
  by (simp add: sendKickLangMessage_def try_catch_def monitor_chat_def)

text \<open>
  C3. Whatever the history, the message and the context: when the model invocation throws,
  \<^verbatim>\<open>sendKickLangMessage\<close> returns the one fixed error string, and its promise never
  rejects. The result of a failed invocation is a string like any reply: a model that
  answers with that very text gives the same result as a model that cannot be reached.
\<close>

theorem sendKickLangMessage_failure:
  "(chat (systemInstruction ctx) (formattedHistory history) message = Inl e \<longrightarrow>
      sendKickLangMessage chat history message ctx =
        Inr (Some ''**SystemMonitor:** Neural core interrupt. Re-synchronizing swarm...''))
   \<and> (\<exists>v. sendKickLangMessage chat history message ctx = Inr v)
   \<and> sendKickLangMessage failing_chat history message ctx =
       sendKickLangMessage monitor_chat history message ctx"
proof (intro conjI impI)
  assume "chat (systemInstruction ctx) (formattedHistory history) message = Inl e"
  then show "sendKickLangMessage chat history message ctx =
        Inr (Some ''**SystemMonitor:** Neural core interrupt. Re-synchronizing swarm...'')"
    by (rule sendKickLangMessage_throws)
next
  show "\<exists>v. sendKickLangMessage chat history message ctx = Inr v"
    by (rule sendKickLangMessage_returns)
next
  show "sendKickLangMessage failing_chat history message ctx =
       sendKickLangMessage monitor_chat history message ctx"
    by (simp only: sendKickLangMessage_failing_chat sendKickLangMessage_monitor_chat)
qed

theorem sendKickLangMessage_failure_witness:
  "failing_chat (systemInstruction (chatContext App_init)) (formattedHistory []) ''hi'' =
     Inl (ApiError ''fetch failed'')
   \<and> sendKickLangMessage failing_chat [] ''hi'' (chatContext App_init) =
     Inr (Some ''**SystemMonitor:** Neural core interrupt. Re-synchronizing swarm...'')"
proof -
  have h: "failing_chat (systemInstruction (chatContext App_init)) (formattedHistory []) ''hi'' =
     Inl (ApiError ''fetch failed'')"
    by (simp add: failing_chat_def)
  from h sendKickLangMessage_failure
     [where chat = failing_chat and ctx = "chatContext App_init" and history = "[]"
        and message = "''hi''" and e = "ApiError ''fetch failed''"]
  show ?thesis by blast
qed

section \<open>Starting a session\<close>





lemma startSession_state_cells:
  "graphData (startSession_state obj now g st) = g"
  "currentNodeId (kickLangState (startSession_state obj now g st)) = startNode g"
  "objective (kickLangState (startSession_state obj now g st)) = obj"
  "messages (startSession_state obj now g st) = [initialMessage obj g now]"
  "hasStarted (startSession_state obj now g st)"
  by (simp_all add: startSession_state_def)

lemma mock_graph_start: "startNode mock_graph = ''start''" "startLabel mock_graph = ''Start''"
  by (simp_all add: startNode_def startLabel_def mock_graph_def)

lemma mock_session_cells:
  "graphData mock_session = mock_graph"
  "currentNodeId (kickLangState mock_session) = ''start''"
  "messages mock_session = [initialMessage ''Learn recursion'' mock_graph 0]"
  "hasStarted mock_session"
  by (simp_all add: mock_session_def startSession_state_cells mock_graph_start)

subsection \<open>Graphs of the declared type among the JSON values\<close>









subsection \<open>The handler\<close>










section \<open>Sending a message\<close>

lemma handleSendMessage_call_messages:
  "messages (handleSendMessage_call input t1 t2 st) = messages st @ [userMsg input t1 t2]"
  by (simp add: handleSendMessage_call_def)

lemma handleSendMessage_resume_messages:
  "messages (handleSendMessage_resume outcome t3 t4 st) =
     messages st @ (case outcome of Inr (Some r) \<Rightarrow> [botMsg r t3 t4] | _ \<Rightarrow> [])"
  by (simp add: handleSendMessage_resume_def split: sum.splits option.splits)

lemma handleSendMessage_messages:
  "messages (handleSendMessage chat input t1 t2 t3 t4 st) =
     messages st @ [userMsg input t1 t2] @
       (case sendKickLangMessage chat (chatHistoryRef (handleSendMessage_call input t1 t2 st))
               input (chatContext st) of
          Inr (Some r) \<Rightarrow> [botMsg r t3 t4]
        | _ \<Rightarrow> [])"
  by (simp only: handleSendMessage_def handleSendMessage_resume_messages
      handleSendMessage_call_messages append_assoc)

lemma sendKickLangMessage_silent_chat:
  "sendKickLangMessage silent_chat history message ctx = Inr None"
  by (simp add: sendKickLangMessage_def try_catch_def silent_chat_def)

lemma mock_session_log: "messages mock_session = [initialMessage ''Learn recursion'' mock_graph 0]"
  by (rule mock_session_cells)

text \<open>
  C5 asks that every call of \<^verbatim>\<open>handleSendMessage\<close> grows the message log by the
  user message on submission and by the user message and the model message once it has
  completed. The code misses that on one path. In the started session of the scenario, a
  call whose model response carries no text completes with the log grown by the user
  message only: \<^verbatim>\<open>sendKickLangMessage\<close> hands the absent text on, the author check
  on it throws, and the handler's \<^verbatim>\<open>catch\<close> appends nothing.
\<close>

theorem handleSendMessage_silent:
  "messages (handleSendMessage silent_chat ''hi'' 1 2 3 4 mock_session) =
     messages mock_session @ [userMsg ''hi'' 1 2]
   \<and> length (messages (handleSendMessage silent_chat ''hi'' 1 2 3 4 mock_session)) \<noteq>
       length (messages mock_session) + 2"
proof -
  have m: "messages (handleSendMessage silent_chat ''hi'' 1 2 3 4 mock_session) =
     messages mock_session @ [userMsg ''hi'' 1 2]"
    by (simp add: handleSendMessage_messages sendKickLangMessage_silent_chat)
  have "length (messages (handleSendMessage silent_chat ''hi'' 1 2 3 4 mock_session)) =
      length (messages mock_session) + 1"
    unfolding m by simp
  with m show ?thesis by simp
qed

text \<open>
  What holds on every path: \<^verbatim>\<open>handleSendMessage\<close> only appends to the message log.
  On submission the log grows by exactly the user message, whatever happens later. When
  the call completes with a text from \<^verbatim>\<open>sendKickLangMessage\<close> (the model's reply, or
  the fixed error string after a failed model call) the log has grown by exactly two, the
  user message and then the model message; when it completes without a text, the log
  keeps the user message only. The earlier messages stay in place and in order, also
  under the completion step taken alone.
\<close>

lemma handleSendMessage_appends:
  "messages (handleSendMessage_call input ta tb st) = messages st @ [userMsg input ta tb]
   \<and> length (messages (handleSendMessage_call input ta tb st)) = length (messages st) + 1
   \<and> (sendKickLangMessage chat (chatHistoryRef (handleSendMessage_call input ta tb st))
          input (chatContext st) = Inr (Some r) \<longrightarrow>
        messages (handleSendMessage chat input ta tb tc td st) =
          messages st @ [userMsg input ta tb, botMsg r tc td]
        \<and> length (messages (handleSendMessage chat input ta tb tc td st)) =
            length (messages st) + 2)
   \<and> (sendKickLangMessage chat (chatHistoryRef (handleSendMessage_call input ta tb st))
          input (chatContext st) = Inr None \<longrightarrow>
        messages (handleSendMessage chat input ta tb tc td st) =
          messages st @ [userMsg input ta tb])
   \<and> take (length (messages st)) (messages (handleSendMessage chat input ta tb tc td st)) =
       messages st
   \<and> take (length (messages st)) (messages (handleSendMessage_resume outcome tc td st)) =
       messages st"
proof (intro conjI impI)
  show "messages (handleSendMessage_call input ta tb st) = messages st @ [userMsg input ta tb]"
    by (rule handleSendMessage_call_messages)
  show "length (messages (handleSendMessage_call input ta tb st)) = length (messages st) + 1"
    by (simp add: handleSendMessage_call_messages)
  show "take (length (messages st)) (messages (handleSendMessage chat input ta tb tc td st)) =
       messages st"
    by (simp add: handleSendMessage_messages)
  show "take (length (messages st)) (messages (handleSendMessage_resume outcome tc td st)) =
       messages st"
    by (simp add: handleSendMessage_resume_messages)
next
  assume a: "sendKickLangMessage chat (chatHistoryRef (handleSendMessage_call input ta tb st))
          input (chatContext st) = Inr (Some r)"
  show "messages (handleSendMessage chat input ta tb tc td st) =
          messages st @ [userMsg input ta tb, botMsg r tc td]"
    by (simp add: handleSendMessage_messages a)
  then show "length (messages (handleSendMessage chat input ta tb tc td st)) =
            length (messages st) + 2"
    by simp
next
  assume a: "sendKickLangMessage chat (chatHistoryRef (handleSendMessage_call input ta tb st))
          input (chatContext st) = Inr None"
  show "messages (handleSendMessage chat input ta tb tc td st) =
          messages st @ [userMsg input ta tb]"
    by (simp add: handleSendMessage_messages a)
qed

lemma handleSendMessage_appends_scenario:
  "sendKickLangMessage scopeguard_chat
       (chatHistoryRef (handleSendMessage_call ''hi'' 1 2 mock_session)) ''hi''
       (chatContext mock_session) = Inr (Some ''**ScopeGuard:** focus'')
   \<and> messages (handleSendMessage scopeguard_chat ''hi'' 1 2 3 4 mock_session) =
       messages mock_session @ [userMsg ''hi'' 1 2, botMsg ''**ScopeGuard:** focus'' 3 4]
   \<and> length (messages (handleSendMessage scopeguard_chat ''hi'' 1 2 3 4 mock_session)) =
       length (messages mock_session) + 2
   \<and> sendKickLangMessage silent_chat
       (chatHistoryRef (handleSendMessage_call ''hi'' 1 2 mock_session)) ''hi''
       (chatContext mock_session) = Inr None
   \<and> messages (handleSendMessage silent_chat ''hi'' 1 2 3 4 mock_session) =
       messages mock_session @ [userMsg ''hi'' 1 2]"
proof -
  have h1: "sendKickLangMessage scopeguard_chat
       (chatHistoryRef (handleSendMessage_call ''hi'' 1 2 mock_session)) ''hi''
       (chatContext mock_session) = Inr (Some ''**ScopeGuard:** focus'')"
    by (simp add: sendKickLangMessage_def try_catch_def scopeguard_chat_def)
  have h2: "sendKickLangMessage silent_chat
       (chatHistoryRef (handleSendMessage_call ''hi'' 1 2 mock_session)) ''hi''
       (chatContext mock_session) = Inr None"
    by (rule sendKickLangMessage_silent_chat)
  note a = handleSendMessage_appends
    [where chat = scopeguard_chat and input = "''hi''" and ta = "1" and tb = "2"
       and tc = "3" and td = "4" and st = mock_session and r = "''**ScopeGuard:** focus''"]
  note b = handleSendMessage_appends
    [where chat = silent_chat and input = "''hi''" and ta = "1" and tb = "2"
       and tc = "3" and td = "4" and st = mock_session]
  from a h1 have a': "messages (handleSendMessage scopeguard_chat ''hi'' 1 2 3 4 mock_session) =
       messages mock_session @ [userMsg ''hi'' 1 2, botMsg ''**ScopeGuard:** focus'' 3 4]
     \<and> length (messages (handleSendMessage scopeguard_chat ''hi'' 1 2 3 4 mock_session)) =
       length (messages mock_session) + 2"
    by blast
  from b h2 have b': "messages (handleSendMessage silent_chat ''hi'' 1 2 3 4 mock_session) =
       messages mock_session @ [userMsg ''hi'' 1 2]"
    by blast
  from h1 a' h2 b' show ?thesis by blast
qed

lemma author_of_error_text:
  "author ''**SystemMonitor:** Neural core interrupt. Re-synchronizing swarm...'' = ''AI_Tutor''"
  by (simp add: author_def)

lemma error_text_markers:
  "\<not> includes_str ''**SystemMonitor:** Neural core interrupt. Re-synchronizing swarm...'' ''**ScopeGuard''"
  "\<not> includes_str ''**SystemMonitor:** Neural core interrupt. Re-synchronizing swarm...'' ''**DebuggAI''"
  "\<not> includes_str ''**SystemMonitor:** Neural core interrupt. Re-synchronizing swarm...'' ''**Dima''"
  by simp_all

lemma author_swarm_of_error_text:
  "author_swarm ''**SystemMonitor:** Neural core interrupt. Re-synchronizing swarm...'' = ''AI_Tutor''"
  by (simp add: author_swarm_def)

text \<open>
  C10. The error string that \<^verbatim>\<open>sendKickLangMessage\<close> returns when the model call fails
  contains none of the markers of the author check (its one bold prefix is
  \<^verbatim>\<open>**SystemMonitor\<close>), under either chain. So when the model call of
  \<^verbatim>\<open>handleSendMessage\<close> throws, the message appended after the user message has that
  string as its text and \<^verbatim>\<open>AI_Tutor\<close> as its author.
\<close>

theorem chat_failure_author:
  "\<not> includes_str ''**SystemMonitor:** Neural core interrupt. Re-synchronizing swarm...'' ''**ScopeGuard''
   \<and> \<not> includes_str ''**SystemMonitor:** Neural core interrupt. Re-synchronizing swarm...'' ''**DebuggAI''
   \<and> \<not> includes_str ''**SystemMonitor:** Neural core interrupt. Re-synchronizing swarm...'' ''**Dima''
   \<and> author ''**SystemMonitor:** Neural core interrupt. Re-synchronizing swarm...'' = ''AI_Tutor''
   \<and> author_swarm ''**SystemMonitor:** Neural core interrupt. Re-synchronizing swarm...'' = ''AI_Tutor''
   \<and> (chat (systemInstruction (chatContext st))
         (formattedHistory (chatHistoryRef (handleSendMessage_call input ta tb st))) input = Inl e
       \<longrightarrow> messages (handleSendMessage chat input ta tb tc td st) =
             messages st @
               [userMsg input ta tb,
                \<lparr>id_msg = Number_toString (tc + 1), role = model,
                 authorName = Some ''AI_Tutor'',
                 text_msg = ''**SystemMonitor:** Neural core interrupt. Re-synchronizing swarm...'',
                 timestamp = td\<rparr>])"
proof (intro conjI impI)
  assume "chat (systemInstruction (chatContext st))
         (formattedHistory (chatHistoryRef (handleSendMessage_call input ta tb st))) input = Inl e"
  then have "sendKickLangMessage chat (chatHistoryRef (handleSendMessage_call input ta tb st))
      input (chatContext st) =
        Inr (Some ''**SystemMonitor:** Neural core interrupt. Re-synchronizing swarm...'')"
    by (rule sendKickLangMessage_throws)
  then have "messages (handleSendMessage chat input ta tb tc td st) =
      messages st @ [userMsg input ta tb] @
        [botMsg ''**SystemMonitor:** Neural core interrupt. Re-synchronizing swarm...'' tc td]"
    by (simp only: handleSendMessage_messages sum.case option.case)
  then show "messages (handleSendMessage chat input ta tb tc td st) =
             messages st @
               [userMsg input ta tb,
                \<lparr>id_msg = Number_toString (tc + 1), role = model,
                 authorName = Some ''AI_Tutor'',
                 text_msg = ''**SystemMonitor:** Neural core interrupt. Re-synchronizing swarm...'',
                 timestamp = td\<rparr>]"
    by (simp only: botMsg_def author_of_error_text append_Cons append_Nil)
qed (rule error_text_markers author_of_error_text author_swarm_of_error_text)+

theorem chat_failure_author_witness:
  "failing_chat (systemInstruction (chatContext mock_session))
       (formattedHistory (chatHistoryRef (handleSendMessage_call ''hi'' 1 2 mock_session))) ''hi''
     = Inl (ApiError ''fetch failed'')
   \<and> messages (handleSendMessage failing_chat ''hi'' 1 2 3 4 mock_session) =
       messages mock_session @
         [userMsg ''hi'' 1 2,
          \<lparr>id_msg = Number_toString (3 + 1), role = model,
           authorName = Some ''AI_Tutor'',
           text_msg = ''**SystemMonitor:** Neural core interrupt. Re-synchronizing swarm...'',
           timestamp = 4\<rparr>]"
proof -
  have h: "failing_chat (systemInstruction (chatContext mock_session))
       (formattedHistory (chatHistoryRef (handleSendMessage_call ''hi'' 1 2 mock_session))) ''hi''
     = Inl (ApiError ''fetch failed'')"
    by (simp add: failing_chat_def)
  note a = chat_failure_author
    [where chat = failing_chat and input = "''hi''" and ta = "1" and tb = "2"
       and tc = "3" and td = "4" and st = mock_session and e = "ApiError ''fetch failed''"]
  from a h have "messages (handleSendMessage failing_chat ''hi'' 1 2 3 4 mock_session) =
       messages mock_session @
         [userMsg ''hi'' 1 2,
          \<lparr>id_msg = Number_toString (3 + 1), role = model,
           authorName = Some ''AI_Tutor'',
           text_msg = ''**SystemMonitor:** Neural core interrupt. Re-synchronizing swarm...'',
           timestamp = 4\<rparr>]"
    by (elim conjE) (rule mp)
  with h show ?thesis by (intro conjI)
qed

section \<open>Selecting a node and toggling the style\<close>

lemma toggleStyle_style:
  "learningStyle (kickLangState (toggleStyle st)) =
     (if learningStyle (kickLangState st) = Socratic then Direct else Socratic)"
  by (simp add: toggleStyle_def)

lemma toggleStyle_not_Hybrid: "learningStyle (kickLangState (toggleStyle st)) \<noteq> Hybrid"
  by (simp add: toggleStyle_style)

lemma toggleStyle_twice:
  "learningStyle (kickLangState (toggleStyle (toggleStyle (toggleStyle st)))) =
     learningStyle (kickLangState (toggleStyle st))"
  by (simp add: toggleStyle_style)

text \<open>
  C7. Whatever the learning style at the start, after one or more calls of
  \<^verbatim>\<open>toggleStyle\<close> the style is \<^verbatim>\<open>Socratic\<close> or \<^verbatim>\<open>Direct\<close> and never
  \<^verbatim>\<open>Hybrid\<close>: a call yields \<^verbatim>\<open>Direct\<close> from \<^verbatim>\<open>Socratic\<close> and \<^verbatim>\<open>Socratic\<close>
  from anything else, and from the first call on the style repeats with period two.
\<close>

theorem toggleStyle_two_values:
  "learningStyle (kickLangState ((toggleStyle ^^ Suc n) st)) \<in> {Socratic, Direct}
   \<and> learningStyle (kickLangState ((toggleStyle ^^ Suc n) st)) \<noteq> Hybrid
   \<and> learningStyle (kickLangState (toggleStyle st)) =
       (if learningStyle (kickLangState st) = Socratic then Direct else Socratic)
   \<and> learningStyle (kickLangState ((toggleStyle ^^ Suc (Suc (Suc n))) st)) =
       learningStyle (kickLangState ((toggleStyle ^^ Suc n) st))"
proof (intro conjI)
  have nh: "learningStyle (kickLangState ((toggleStyle ^^ Suc n) st)) \<noteq> Hybrid"
    by (simp add: toggleStyle_not_Hybrid)
  then show "learningStyle (kickLangState ((toggleStyle ^^ Suc n) st)) \<in> {Socratic, Direct}"
    by (cases "learningStyle (kickLangState ((toggleStyle ^^ Suc n) st))") simp_all
  from nh show "learningStyle (kickLangState ((toggleStyle ^^ Suc n) st)) \<noteq> Hybrid" .
  show "learningStyle (kickLangState (toggleStyle st)) =
       (if learningStyle (kickLangState st) = Socratic then Direct else Socratic)"
    by (rule toggleStyle_style)
  show "learningStyle (kickLangState ((toggleStyle ^^ Suc (Suc (Suc n))) st)) =
       learningStyle (kickLangState ((toggleStyle ^^ Suc n) st))"
    by (simp add: toggleStyle_twice)
qed

lemma handleNodeClick_state:
  "kickLangState (handleNodeClick nodeId st) = (kickLangState st)\<lparr>currentNodeId := nodeId\<rparr>"
  by (simp add: handleNodeClick_def)

text \<open>
  C8. For every string, \<^verbatim>\<open>handleNodeClick\<close> makes it the \<^verbatim>\<open>currentNodeId\<close>, in
  every state: no node of the graph is looked at, and the graph stays as it is. In the
  session of the scenario, the id \<^verbatim>\<open>ghost\<close> of no node becomes the current node id.
\<close>

theorem handleNodeClick_unchecked:
  "currentNodeId (kickLangState (handleNodeClick nodeId st)) = nodeId
   \<and> graphData (handleNodeClick nodeId st) = graphData st
   \<and> ''ghost'' \<notin> set (map id_node (nodes (graphData mock_session)))
   \<and> currentNodeId (kickLangState (handleNodeClick ''ghost'' mock_session)) = ''ghost''"
proof (intro conjI)
  show "currentNodeId (kickLangState (handleNodeClick nodeId st)) = nodeId"
    by (simp add: handleNodeClick_def)
  show "graphData (handleNodeClick nodeId st) = graphData st"
    by (simp add: handleNodeClick_def)
  have "graphData mock_session = mock_graph"
    by (rule mock_session_cells)
  then show "''ghost'' \<notin> set (map id_node (nodes (graphData mock_session)))"
    by (simp add: mock_graph_def)
  show "currentNodeId (kickLangState (handleNodeClick ''ghost'' mock_session)) = ''ghost''"
    by (simp add: handleNodeClick_def)
qed

section \<open>What the handlers leave alone\<close>

lemma step_difficulty:
  "difficulty (kickLangState (step st ev)) = difficulty (kickLangState st)"
proof (cases ev)
  case (StartSession_call obj)
  then show ?thesis by (simp add: handleStartSession_call_def)
next
  case (StartSession_resume obj now outcome)
  then show ?thesis
    by (cases outcome) (simp_all add: startSession_state_def)
next
  case (SendMessage_call input t1 t2)
  then show ?thesis by (simp add: handleSendMessage_call_def)
next
  case (SendMessage_resume outcome t3 t4)
  then show ?thesis
    by (simp add: handleSendMessage_resume_def split: sum.splits option.splits)
next
  case (NodeClick nodeId)
  then show ?thesis by (simp add: handleNodeClick_def)
next
  case ToggleStyle
  then show ?thesis by (simp add: toggleStyle_def)
qed

lemma foldl_step_difficulty:
  "difficulty (kickLangState (foldl step st evs)) = difficulty (kickLangState st)"
  by (induction evs arbitrary: st) (simp_all add: step_difficulty)

lemma run_difficulty: "difficulty (kickLangState (run evs)) = ''intermediate''"
  unfolding run_def foldl_step_difficulty by (simp add: App_init_def)

text \<open>
  C9. \<^verbatim>\<open>handleNodeClick\<close> changes the field \<^verbatim>\<open>currentNodeId\<close> of the session state
  and nothing else, and \<^verbatim>\<open>toggleStyle\<close> changes the field \<^verbatim>\<open>learningStyle\<close> and
  nothing else: the objective, the difficulty and the other one's field keep their
  values, and so do the graph and the message log. No handler writes
  \<^verbatim>\<open>difficulty\<close>: after any sequence of events from the initial state it is still
  \<^verbatim>\<open>intermediate\<close>.
\<close>

theorem handlers_frame:
  "kickLangState (handleNodeClick nodeId st) = (kickLangState st)\<lparr>currentNodeId := nodeId\<rparr>
   \<and> objective (kickLangState (handleNodeClick nodeId st)) = objective (kickLangState st)
   \<and> learningStyle (kickLangState (handleNodeClick nodeId st)) = learningStyle (kickLangState st)
   \<and> difficulty (kickLangState (handleNodeClick nodeId st)) = difficulty (kickLangState st)
   \<and> objective (kickLangState (toggleStyle st)) = objective (kickLangState st)
   \<and> currentNodeId (kickLangState (toggleStyle st)) = currentNodeId (kickLangState st)
   \<and> difficulty (kickLangState (toggleStyle st)) = difficulty (kickLangState st)
   \<and> graphData (handleNodeClick nodeId st) = graphData st
   \<and> messages (handleNodeClick nodeId st) = messages st
   \<and> graphData (toggleStyle st) = graphData st
   \<and> messages (toggleStyle st) = messages st
   \<and> difficulty (kickLangState (step st ev)) = difficulty (kickLangState st)
   \<and> difficulty (kickLangState App_init) = ''intermediate''
   \<and> difficulty (kickLangState (run evs)) = ''intermediate''"
proof (intro conjI)
  show "difficulty (kickLangState (step st ev)) = difficulty (kickLangState st)"
    by (rule step_difficulty)
  show "difficulty (kickLangState (run evs)) = ''intermediate''"
    by (rule run_difficulty)
  show "difficulty (kickLangState App_init) = ''intermediate''"
    by (simp add: App_init_def)
qed (simp_all add: handleNodeClick_def toggleStyle_def)

end
